theory Spec2Isabelle
  imports Main "HOL-Library.AList"
begin

section \<open>Exceptions\<close>

text \<open>
  Every \<^verbatim>\<open>raise\<close> of the sources is a value. \<^verbatim>\<open>TypeError\<close> is raised in several places
  with different messages; the message is kept as a tag.
\<close>

datatype type_error =
    CantDeserialize
  | TakesArgs
  | MultipleValues
  | UnexpectedKeyword
  | Unhashable

datatype exn =
    ModelException
  | ElementDefinitionException
  | ValidationError
  | ThunderdomeQueryError
  | DoesNotExist
  | MultipleObjectsReturned
  | TypeError type_error
  | KeyError
  | IndexError
  | AttributeError
  | AssertionError
  | ThunderdomeGremlinException

section \<open>Field descriptors\<close>

text \<open>
  Modelled from the spec: the \<^verbatim>\<open>Column\<close> class of \<^verbatim>\<open>thunderdome.columns\<close> is not among the
  sources. A field descriptor carries an optional explicit wire name (\<^verbatim>\<open>db_field\<close>), the
  attribute name it was declared under (set by \<^verbatim>\<open>set_column_name\<close>), its declaration
  position and its deletability flag. Its wire name is the explicit one when given,
  otherwise the attribute name
  (\<^verbatim>\<open>test_attempting_to_make_duplicate_column_names_fails\<close> relies on this).
  Descriptors are values here: every column attribute of a class body binds a descriptor
  object of its own, as \<^verbatim>\<open>name = columns.Text()\<close> does.
\<close>

record column =
  db_field :: "string option"
  column_name :: "string option"
  position :: int
  can_delete :: bool



section \<open>Schema builder: \<^verbatim>\<open>ElementMetaClass.__new__\<close>\<close>

text \<open>
  An \<^verbatim>\<open>OrderedDict\<close> is an association list with distinct keys. \<^verbatim>\<open>d[k] = v\<close> is
  \<^const>\<open>AList.update\<close> (replace in place, or append); \<^verbatim>\<open>d.setdefault(k, v)\<close> appends
  only when the key is absent.
\<close>

type_synonym column_dict = "(string \<times> column) list"







text \<open>
  A class object, as far as this development needs it: its name, its \<^verbatim>\<open>_columns\<close> and
  \<^verbatim>\<open>_db_map\<close>, and the values the class attributes \<^verbatim>\<open>element_type\<close> and \<^verbatim>\<open>label\<close>
  resolve to on it (own or inherited). Class bodies that bind embedded-script methods are
  not part of this model.
\<close>

record klass =
  cls_name :: string
  cls_columns :: column_dict
  cls_db_map :: "(string option \<times> string) list"
  cls_element_type :: "string option"
  cls_label :: "string option"



section \<open>Discriminators: \<^verbatim>\<open>BaseElement._type_name\<close>\<close>

text \<open>
  The regular expression \<^verbatim>\<open>([a-z])([A-Z])\<close> and \<^verbatim>\<open>str.lower\<close> work on ASCII letters.
  \<^verbatim>\<open>camelcase.sub\<close> replaces the matches from left to right; a match consumes both
  characters.
\<close>

definition is_lower :: "char \<Rightarrow> bool" where
  "is_lower c = (97 \<le> (of_char c :: nat) \<and> (of_char c :: nat) \<le> 122)"

definition is_upper :: "char \<Rightarrow> bool" where
  "is_upper c = (65 \<le> (of_char c :: nat) \<and> (of_char c :: nat) \<le> 90)"







section \<open>Model registry: \<^verbatim>\<open>VertexMetaClass.__new__\<close> and \<^verbatim>\<open>EdgeMetaClass.__new__\<close>\<close>

text \<open>
  The module-level dictionaries \<^verbatim>\<open>vertex_types\<close> and \<^verbatim>\<open>edge_types\<close> are the state; a
  declaration returns the class or the exception, and the registry after it.
\<close>

record registry =
  vertex_types :: "string \<rightharpoonup> klass"
  edge_types :: "string \<rightharpoonup> klass"






section \<open>Values, rows and model instances\<close>

text \<open>
  Rows and parameters are JSON values; Python's \<^verbatim>\<open>None\<close> is \<open>JNull\<close>. A dictionary is
  an association list read with \<^const>\<open>map_of\<close>. Numbers are integers here.
\<close>

datatype json =
    JNull
  | JBool bool
  | JInt int
  | JStr string
  | JList "json list"
  | JObj "(string \<times> json) list"

text \<open>\<^verbatim>\<open>data.get(k)\<close>: the value, or \<^verbatim>\<open>None\<close> when the key is absent.\<close>

definition dict_get :: "(string \<times> json) list \<Rightarrow> string \<Rightarrow> json" where
  "dict_get d k = (case map_of d k of None \<Rightarrow> JNull | Some v \<Rightarrow> v)"

text \<open>\<^verbatim>\<open>data[k]\<close>: the value, or \<^verbatim>\<open>KeyError\<close>.\<close>

definition dict_item :: "(string \<times> json) list \<Rightarrow> string \<Rightarrow> exn + json" where
  "dict_item d k = (case map_of d k of None \<Rightarrow> Inl KeyError | Some v \<Rightarrow> Inr v)"

text \<open>Truth value of a Python object, as \<^verbatim>\<open>filter(None, results)\<close> and \<^verbatim>\<open>not results\<close> use it.\<close>

fun truthy :: "json \<Rightarrow> bool" where
  "truthy JNull = False"
| "truthy (JBool b) = b"
| "truthy (JInt i) = (i \<noteq> 0)"
| "truthy (JStr s) = (s \<noteq> [])"
| "truthy (JList xs) = (xs \<noteq> [])"
| "truthy (JObj kvs) = (kvs \<noteq> [])"

text \<open>
  A model instance: its class, its identifier \<^verbatim>\<open>eid\<close> and its field values
  (\<^verbatim>\<open>_values\<close>, by field name); an edge also has its two endpoints \<^verbatim>\<open>_inV\<close> and
  \<^verbatim>\<open>_outV\<close>, each a raw value (\<^verbatim>\<open>None\<close>, an identifier) or a model instance.
\<close>

datatype element =
    VertexObj klass json "(string \<times> json) list"
  | EdgeObj klass endpoint endpoint json "(string \<times> json) list"
and endpoint =
    Raw json
  | Resolved element

fun eid :: "element \<Rightarrow> json" where
  "eid (VertexObj k i vals) = i"
| "eid (EdgeObj k inV outV i vals) = i"


fun element_values :: "element \<Rightarrow> (string \<times> json) list" where
  "element_values (VertexObj k i vals) = vals"
| "element_values (EdgeObj k inV outV i vals) = vals"

text \<open>
  Modelled from the spec: the per-field coercions \<^verbatim>\<open>to_python\<close>, \<^verbatim>\<open>validate\<close> and
  \<^verbatim>\<open>to_database\<close> of \<^verbatim>\<open>thunderdome.columns\<close> are not among the sources. They are taken
  as parameters; each may raise.
\<close>

record columns_api =
  to_python :: "column \<Rightarrow> json \<Rightarrow> exn + json"
  validate_column :: "column \<Rightarrow> json \<Rightarrow> exn + json"
  to_database :: "column \<Rightarrow> json \<Rightarrow> exn + json"

text \<open>\<^verbatim>\<open>BaseElement.__init__\<close>, lines 25--32: one value per column, looked up by field name.\<close>

fun init_values :: "columns_api \<Rightarrow> column_dict \<Rightarrow> (string \<times> json) list \<Rightarrow> exn + (string \<times> json) list" where
  "init_values cm [] values = Inr []"
| "init_values cm ((name, col) # cols) values =
     (let value = dict_get values name in
      case (if value \<noteq> JNull then to_python cm col value else Inr value) of
        Inl e \<Rightarrow> Inl e
      | Inr value' \<Rightarrow>
          (case init_values cm cols values of
             Inl e \<Rightarrow> Inl e
           | Inr vals \<Rightarrow> Inr ((name, value') # vals)))"

definition Vertex_init :: "columns_api \<Rightarrow> klass \<Rightarrow> (string \<times> json) list \<Rightarrow> exn + element" where
  "Vertex_init cm k values =
     (case init_values cm (cls_columns k) values of
        Inl e \<Rightarrow> Inl e
      | Inr vals \<Rightarrow> Inr (VertexObj k (dict_get values ''_id'') vals))"

definition Edge_init :: "columns_api \<Rightarrow> klass \<Rightarrow> endpoint \<Rightarrow> endpoint \<Rightarrow> (string \<times> json) list \<Rightarrow> exn + element" where
  "Edge_init cm k inV outV values =
     (case init_values cm (cls_columns k) values of
        Inl e \<Rightarrow> Inl e
      | Inr vals \<Rightarrow> Inr (EdgeObj k inV outV (dict_get values ''_id'') vals))"

section \<open>Polymorphic deserialization: \<^verbatim>\<open>Element.deserialize\<close>\<close>

text \<open>
  \<^verbatim>\<open>vertex_types[key]\<close>: the registry keys are strings, so another hashable key is a
  \<^verbatim>\<open>KeyError\<close>; a list or a dictionary cannot be hashed.
\<close>

fun registry_lookup :: "(string \<rightharpoonup> klass) \<Rightarrow> json \<Rightarrow> exn + klass" where
  "registry_lookup types (JStr s) = (case types s of None \<Rightarrow> Inl KeyError | Some k \<Rightarrow> Inr k)"
| "registry_lookup types (JList xs) = Inl (TypeError Unhashable)"
| "registry_lookup types (JObj kvs) = Inl (TypeError Unhashable)"
| "registry_lookup types v = Inl KeyError"

text \<open>Lines 166--179. A row that is not a dictionary has no \<^verbatim>\<open>get\<close>.\<close>

fun deserialize :: "columns_api \<Rightarrow> registry \<Rightarrow> json \<Rightarrow> exn + element" where
  "deserialize cm r (JObj data) =
     (let dtype = dict_get data ''_type'' in
      if dtype = JStr ''vertex'' then
        (case dict_item data ''element_type'' of
           Inl e \<Rightarrow> Inl e
         | Inr vertex_type \<Rightarrow>
             (case registry_lookup (vertex_types r) vertex_type of
                Inl e \<Rightarrow> Inl e
              | Inr k \<Rightarrow> Vertex_init cm k data))
      else if dtype = JStr ''edge'' then
        (case dict_item data ''_label'' of
           Inl e \<Rightarrow> Inl e
         | Inr edge_type \<Rightarrow>
             (case registry_lookup (edge_types r) edge_type of
                Inl e \<Rightarrow> Inl e
              | Inr k \<Rightarrow>
                  (case dict_item data ''_inV'' of
                     Inl e \<Rightarrow> Inl e
                   | Inr inV \<Rightarrow>
                       (case dict_item data ''_outV'' of
                          Inl e \<Rightarrow> Inl e
                        | Inr outV \<Rightarrow> Edge_init cm k (Raw inV) (Raw outV) data))))
      else Inl (TypeError CantDeserialize))"
| "deserialize cm r row = Inl AttributeError"

section \<open>The execution boundary: \<^verbatim>\<open>connection.execute_query\<close>\<close>

text \<open>
  The remote service is a parameter: given the calls made so far and the present call
  (script text and parameter dictionary) it answers with rows or with a failure. The
  state threaded through the operations is the list of calls submitted so far, so that
  ``no script is executed'' is ``the list is unchanged''. \<^verbatim>\<open>execute_query\<close> is always
  called with \<^verbatim>\<open>transaction=True\<close> by the operations below.
\<close>

type_synonym params = "(string \<times> json) list"
type_synonym call = "string \<times> params"
type_synonym boundary = "call list \<Rightarrow> call \<Rightarrow> exn + json list"

definition NL :: char where
  "NL = CHR 0x0A"

text \<open>The call that \<^verbatim>\<open>execute_query(query, params)\<close> submits.\<close>

definition submitted :: "string \<Rightarrow> params \<Rightarrow> call" where
  "submitted query ps = (''g.stopTransaction(FAILURE)'' @ [NL] @ query, ps)"

definition execute_query :: "boundary \<Rightarrow> string \<Rightarrow> params \<Rightarrow> call list \<Rightarrow> (exn + json list) \<times> call list" where
  "execute_query srv query ps log =
     (let c = submitted query ps
      in (srv log c, log @ [c]))"

text \<open>\<^verbatim>\<open>'\n'.join(qs)\<close>\<close>

fun join_lines :: "string list \<Rightarrow> string" where
  "join_lines [] = []"
| "join_lines [q] = q"
| "join_lines (q # qs) = q @ [NL] @ join_lines qs"

section \<open>Fetching: \<^verbatim>\<open>Vertex.all\<close>, \<^verbatim>\<open>Vertex.get\<close>, \<^verbatim>\<open>Vertex.get_by_eid\<close>\<close>

text \<open>
  The argument of \<^verbatim>\<open>all\<close> is a list or tuple of identifiers, given by their \<^verbatim>\<open>str\<close>
  form, or some other object. \<^verbatim>\<open>all\<close> is modelled for its default \<^verbatim>\<open>as_dict=False\<close>,
  where it returns the list of objects.
\<close>

datatype vids_arg = Sequence "string list" | NotSequence

text \<open>
  Lines 222--227. The handler for \<^verbatim>\<open>KeyError\<close> formats its message with
  \<^verbatim>\<open>'Vertex type "{}" is unknown'.format()\<close>, which has no argument for the field: the
  formatting raises \<^verbatim>\<open>IndexError\<close> before \<^verbatim>\<open>ThunderdomeQueryError\<close> is constructed.
\<close>

fun deserialize_results :: "columns_api \<Rightarrow> registry \<Rightarrow> json list \<Rightarrow> exn + element list" where
  "deserialize_results cm r [] = Inr []"
| "deserialize_results cm r (row # rows) =
     (case deserialize cm r row of
        Inl e \<Rightarrow> Inl (if e = KeyError then IndexError else e)
      | Inr obj \<Rightarrow>
          (case deserialize_results cm r rows of
             Inl e \<Rightarrow> Inl e
           | Inr objs \<Rightarrow> Inr (obj # objs)))"

definition fetch_by_vid_script :: string where
  \<open>fetch_by_vid_script = ''vids.collect{g.V("vid", it).toList()[0]}''\<close>

definition Vertex_all :: "columns_api \<Rightarrow> boundary \<Rightarrow> registry \<Rightarrow> vids_arg \<Rightarrow> call list
    \<Rightarrow> (exn + element list) \<times> call list" where
  "Vertex_all cm srv r vids log =
     (case vids of
        NotSequence \<Rightarrow> (Inl ThunderdomeQueryError, log)
      | Sequence vs \<Rightarrow>
          (let strvids = vs;
               qs = [fetch_by_vid_script];
               (res, log') = execute_query srv (join_lines qs) [(''vids'', JList (map JStr strvids))] log
           in case res of
                Inl e \<Rightarrow> (Inl e, log')
              | Inr results \<Rightarrow>
                  (let results = filter truthy results in
                   if length results \<noteq> length vs then (Inl ThunderdomeQueryError, log')
                   else (deserialize_results cm r results, log'))))"

text \<open>
  Lines 234--242. Of the exceptions of the \<^verbatim>\<open>try\<close> block only \<^verbatim>\<open>ThunderdomeQueryError\<close>
  is turned into \<^verbatim>\<open>DoesNotExist\<close>; \<^verbatim>\<open>MultipleObjectsReturned\<close> derives from the
  \<^verbatim>\<open>QueryException\<close> of \<^verbatim>\<open>thunderdome.query\<close> and is taken not to be one.
\<close>

definition Vertex_get :: "columns_api \<Rightarrow> boundary \<Rightarrow> registry \<Rightarrow> string \<Rightarrow> call list
    \<Rightarrow> (exn + element) \<times> call list" where
  "Vertex_get cm srv r vid log =
     (case Vertex_all cm srv r (Sequence [vid]) log of
        (Inl e, log') \<Rightarrow> (Inl (if e = ThunderdomeQueryError then DoesNotExist else e), log')
      | (Inr results, log') \<Rightarrow>
          if length results > 1 then (Inl MultipleObjectsReturned, log')
          else (case results of
                  [] \<Rightarrow> (Inl IndexError, log')
                | obj # _ \<Rightarrow> (Inr obj, log')))"


section \<open>Deleting: \<^verbatim>\<open>Vertex.delete\<close> and \<^verbatim>\<open>Edge.delete\<close>\<close>

definition remove_vertex_query :: string where
  "remove_vertex_query =
     [NL] @ ''        g.removeVertex(g.v(eid))'' @ [NL] @
     ''        g.stopTransaction(SUCCESS)'' @ [NL] @ ''        ''"

definition remove_edge_query :: string where
  "remove_edge_query =
     [NL] @ ''        g.removeEdge(g.e(eid))'' @ [NL] @
     ''        g.stopTransaction(SUCCESS)'' @ [NL] @ ''        ''"

text \<open>Lines 280--287 and 372--379; \<^verbatim>\<open>delete\<close> returns nothing.\<close>

fun delete :: "boundary \<Rightarrow> element \<Rightarrow> call list \<Rightarrow> (exn + unit) \<times> call list" where
  "delete srv (VertexObj k i vals) log =
     (if i = JNull then (Inl ThunderdomeQueryError, log)
      else (let (res, log') = execute_query srv remove_vertex_query [(''eid'', i)] log
            in case res of Inl e \<Rightarrow> (Inl e, log') | Inr results \<Rightarrow> (Inr (), log')))"
| "delete srv (EdgeObj k inV outV i vals) log =
     (if i = JNull then (Inl ThunderdomeQueryError, log)
      else (let (res, log') = execute_query srv remove_edge_query [(''eid'', i)] log
            in case res of Inl e \<Rightarrow> (Inl e, log') | Inr results \<Rightarrow> (Inr (), log')))"

section \<open>Saving: \<^verbatim>\<open>BaseElement.save\<close>, \<^verbatim>\<open>Vertex.save\<close>, \<^verbatim>\<open>Edge.save\<close>\<close>













section \<open>Bound embedded-script methods: \<^verbatim>\<open>BaseGremlinMethod.__call__\<close>\<close>

text \<open>
  A configured method object: whether it is a class method, its default arguments, the
  parameter names and the body that \<^verbatim>\<open>configure_method\<close> took from the parsed signature.
\<close>

record gremlin_method =
  is_classmethod :: bool
  default_args :: params
  arg_list :: "string list"
  function_body :: string





section \<open>Embedded-script files: \<^verbatim>\<open>groovy.parse\<close> and \<^verbatim>\<open>GroovyFunctionParser.parse\<close>\<close>

text \<open>Character classes of the regular expressions and of the grammar (ASCII).\<close>

definition is_digit :: "char \<Rightarrow> bool" where
  "is_digit c = (48 \<le> (of_char c :: nat) \<and> (of_char c :: nat) \<le> 57)"

definition is_alnum :: "char \<Rightarrow> bool" where
  "is_alnum c = (is_lower c \<or> is_upper c \<or> is_digit c)"

definition is_word_char :: "char \<Rightarrow> bool" where
  "is_word_char c = (is_alnum c \<or> c = CHR ''_'')"

definition is_ident_char :: "char \<Rightarrow> bool" where
  "is_ident_char c = (is_alnum c \<or> c = CHR ''_'' \<or> c = CHR ''$'')"

definition is_white :: "char \<Rightarrow> bool" where
  "is_white c = (c = CHR '' '' \<or> c = NL \<or> c = CHR 0x09 \<or> c = CHR 0x0D)"

definition skip_white :: "string \<Rightarrow> string" where
  "skip_white s = dropWhile is_white s"

text \<open>
  The elements of the grammar, as the pyparsing library matches them: every element first
  skips white space; \<^verbatim>\<open>Keyword('def')\<close> matches \<^verbatim>\<open>def\<close> when the next character is not an
  identifier character; \<^verbatim>\<open>Regex(r'[A-Za-z0-9]\w*')\<close> matches the longest such word; a
  literal matches its character. A match returns the rest of the input.
\<close>

definition KeywordDef :: "string \<Rightarrow> string option" where
  "KeywordDef s =
     (let t = skip_white s
      in if take 3 t = ''def'' \<and> (case drop 3 t of [] \<Rightarrow> True | c # _ \<Rightarrow> \<not> is_ident_char c)
         then Some (drop 3 t) else None)"

definition VarName :: "string \<Rightarrow> (string \<times> string) option" where
  "VarName s =
     (case skip_white s of
        [] \<Rightarrow> None
      | c # cs \<Rightarrow> if is_alnum c then Some (c # takeWhile is_word_char cs, dropWhile is_word_char cs)
                  else None)"

definition Literal :: "char \<Rightarrow> string \<Rightarrow> string option" where
  "Literal ch s =
     (case skip_white s of
        [] \<Rightarrow> None
      | c # cs \<Rightarrow> if c = ch then Some cs else None)"

text \<open>
  \<^verbatim>\<open>ZeroOrMore(Suppress(',') + VarName)\<close>, the tail of \<^verbatim>\<open>delimitedList(VarName)\<close>: it stops
  before the first comma that is not followed by a name.
\<close>

function more_names :: "string \<Rightarrow> string list \<times> string" where
  "more_names s =
     (case Literal (CHR '','') s of
        None \<Rightarrow> ([], s)
      | Some s1 \<Rightarrow>
          (case VarName s1 of
             None \<Rightarrow> ([], s)
           | Some (n, s2) \<Rightarrow> (let (ns, s3) = more_names s2 in (n # ns, s3))))"
  by pat_completeness auto
termination
proof (relation "measure length")
  show "wf (measure length)" by simp
next
  fix s s1 x2 n s2
  assume a: "Literal (CHR '','') s = Some s1" "VarName s1 = Some x2" "(n, s2) = x2"
  have w: "length (skip_white t) \<le> length t" for t
    by (simp add: skip_white_def length_dropWhile_le)
  from a(1) w[of s] have "length s1 < length s"
    by (auto simp: Literal_def split: list.splits if_splits)
  moreover from a(2,3) w[of s1] have "length s2 < length s1"
    by (auto simp: VarName_def split: list.splits if_splits
             intro: le_less_trans[OF length_dropWhile_le])
  ultimately show "(s2, s) \<in> measure length" by simp
qed


text \<open>
  \<^verbatim>\<open>FuncDefn = KeywordDef + FuncName + "(" + delimitedList(VarName) + ")" + "{"\<close>, run by
  \<^verbatim>\<open>parseString\<close>: the function name and the parameter names, or no match. Text after the
  opening brace is not looked at.
\<close>

definition FuncDefn :: "string \<Rightarrow> (string \<times> string list) option" where
  "FuncDefn s =
     (case KeywordDef s of
        None \<Rightarrow> None
      | Some s1 \<Rightarrow>
          (case VarName s1 of
             None \<Rightarrow> None
           | Some (fname, s2) \<Rightarrow>
               (case Literal (CHR ''('') s2 of
                  None \<Rightarrow> None
                | Some s3 \<Rightarrow>
                    (case VarName s3 of
                       None \<Rightarrow> None
                     | Some (a, s4) \<Rightarrow>
                         (let (as, s5) = more_names s4
                          in case Literal (CHR '')'') s5 of
                               None \<Rightarrow> None
                             | Some s6 \<Rightarrow>
                                 (case Literal (CHR ''{'') s6 of
                                    None \<Rightarrow> None
                                  | Some s7 \<Rightarrow> Some (fname, a # as)))))))"

text \<open>
  \<^verbatim>\<open>re.sub(r'[^\{]+\{', '', data)\<close>: every run of one or more characters other than \<^verbatim>\<open>{\<close>
  that is followed by \<^verbatim>\<open>{\<close> is removed together with that brace. The first argument is
  the run read so far.
\<close>

fun sub_to_brace :: "string \<Rightarrow> string \<Rightarrow> string" where
  "sub_to_brace run [] = run"
| "sub_to_brace run (c # s) =
     (if c = CHR ''{'' then (if run = [] then c # sub_to_brace [] s else sub_to_brace [] s)
      else sub_to_brace (run @ [c]) s)"

text \<open>
  \<^verbatim>\<open>re.sub(r'\}$', '', s)\<close>: a closing brace at the very end, or just before a final
  newline, is removed.
\<close>

definition sub_final_brace :: "string \<Rightarrow> string" where
  "sub_final_brace s =
     (case rev s of
        c # t \<Rightarrow>
          if c = CHR ''}'' then rev t
          else (case t of
                  d # u \<Rightarrow> if c = NL \<and> d = CHR ''}'' then rev u @ [NL] else s
                | [] \<Rightarrow> s)
      | [] \<Rightarrow> s)"

text \<open>
  Lines 33--42: the named tuple \<^verbatim>\<open>GroovyFunction(name, args, body, defn)\<close>, or the empty
  dictionary \<^verbatim>\<open>{}\<close> when anything in the \<^verbatim>\<open>try\<close> block raises.
\<close>

datatype groovy_result =
    GroovyFunction string "string list" string string
  | EmptyDict

definition GroovyFunctionParser_parse :: "string \<Rightarrow> groovy_result" where
  "GroovyFunctionParser_parse data =
     (case FuncDefn data of
        None \<Rightarrow> EmptyDict
      | Some (fname, args) \<Rightarrow>
          GroovyFunction fname args (sub_final_brace (sub_to_brace [] data)) data)"

text \<open>\<^verbatim>\<open>data.split("\n")\<close>; the first argument is the line read so far.\<close>

fun split_lines :: "string \<Rightarrow> string \<Rightarrow> string list" where
  "split_lines cur [] = [cur]"
| "split_lines cur (c # s) = (if c = NL then cur # split_lines [] s else split_lines (cur @ [c]) s)"

text \<open>
  \<^verbatim>\<open>re.match(r'^def.*\{', line)\<close> and \<^verbatim>\<open>re.match(r'^\}$', line)\<close> on a line without a
  newline.
\<close>

definition is_defn_line :: "string \<Rightarrow> bool" where
  "is_defn_line line = (take 3 line = ''def'' \<and> CHR ''{'' \<in> set (drop 3 line))"

definition is_end_line :: "string \<Rightarrow> bool" where
  "is_end_line line = (line = ''}'')"

text \<open>Lines 60--71: the blocks captured from the lines of the file.\<close>

fun capture :: "string list \<Rightarrow> string \<Rightarrow> string list \<Rightarrow> string list" where
  "capture [] fn_lines all_fns = all_fns"
| "capture (line # file_lines) fn_lines all_fns =
     (if length fn_lines > 0 then
        (if is_end_line line then capture file_lines [] (all_fns @ [fn_lines @ line @ [NL]])
         else capture file_lines (fn_lines @ line @ [NL]) all_fns)
      else if is_defn_line line then capture file_lines (fn_lines @ line @ [NL]) all_fns
      else capture file_lines fn_lines all_fns)"

text \<open>
  \<^verbatim>\<open>groovy.parse\<close>, lines 45--76, on the text of the file: the result of the function
  parser for every captured block, in order.
\<close>

definition parse_groovy :: "string \<Rightarrow> groovy_result list" where
  "parse_groovy data =
     (let file_lines = split_lines [] data;
          all_fns = capture file_lines [] []
      in map GroovyFunctionParser_parse all_fns)"

text \<open>
  The search of \<^verbatim>\<open>BaseGremlinMethod.configure_method\<close> (\<^verbatim>\<open>gremlin.py\<close>, lines 50--57) over
  the result of \<^verbatim>\<open>parse\<close>: it reads \<^verbatim>\<open>grem_obj.name\<close> of every entry up to the match, and a
  dictionary has no attribute \<^verbatim>\<open>name\<close>.
\<close>

fun find_method :: "string \<Rightarrow> groovy_result list \<Rightarrow> exn + groovy_result option" where
  "find_method method_name [] = Inr None"
| "find_method method_name (EmptyDict # rest) = Inl AttributeError"
| "find_method method_name (GroovyFunction fname args body defn # rest) =
     (if fname = method_name then Inr (Some (GroovyFunction fname args body defn))
      else find_method method_name rest)"

text \<open>
  Lines 59--62 of \<^verbatim>\<open>configure_method\<close>: the parameter names are appended to \<^verbatim>\<open>arg_list\<close>; a
  name that is already there raises.
\<close>

fun add_args :: "string list \<Rightarrow> string list \<Rightarrow> exn + string list" where
  "add_args [] names = Inr names"
| "add_args (arg # args) names =
     (if arg \<in> set names then Inl ThunderdomeGremlinException
      else add_args args (names @ [arg]))"

text \<open>
  \<^verbatim>\<open>configure_method\<close>, lines 41--65, given the name of the method and the text of the
  source file (\<^verbatim>\<open>is_configured\<close> is never set, so the body of the \<^verbatim>\<open>if\<close> always runs).
\<close>

definition configure_method :: "gremlin_method \<Rightarrow> string \<Rightarrow> string \<Rightarrow> exn + gremlin_method" where
  "configure_method m method_name data =
     (case find_method method_name (parse_groovy data) of
        Inl e \<Rightarrow> Inl e
      | Inr None \<Rightarrow> Inl ThunderdomeGremlinException
      | Inr (Some EmptyDict) \<Rightarrow> Inl AttributeError
      | Inr (Some (GroovyFunction fname args body defn)) \<Rightarrow>
          (case add_args args (arg_list m) of
             Inl e \<Rightarrow> Inl e
           | Inr al \<Rightarrow> Inr (m\<lparr>arg_list := al, function_body := body\<rparr>)))"

section \<open>The fetch script on a graph\<close>

text \<open>
  What the script of \<^verbatim>\<open>Vertex.all\<close>, \<^verbatim>\<open>vids.collect{g.V("vid", it).toList()[0]}\<close>, asks of the
  service: for every requested identifier, in order, the first vertex whose \<^verbatim>\<open>vid\<close>
  property equals it, or \<^verbatim>\<open>null\<close> when there is none. The graph is the list of its
  vertex rows.
\<close>

definition first_with_vid :: "json list \<Rightarrow> json \<Rightarrow> json" where
  "first_with_vid graph vid =
     (case filter (\<lambda>row. case row of JObj data \<Rightarrow> dict_get data ''vid'' = vid | _ \<Rightarrow> False) graph of
        [] \<Rightarrow> JNull
      | row # _ \<Rightarrow> row)"

definition graph_server :: "json list \<Rightarrow> boundary" where
  "graph_server graph =
     (\<lambda>log c. case c of (script, ps) \<Rightarrow>
        (case dict_get ps ''vids'' of
           JList vids \<Rightarrow> Inr (map (first_with_vid graph) vids)
         | _ \<Rightarrow> Inl ThunderdomeQueryError))"

section \<open>Example declarations and rows\<close>


definition Person :: klass where
  "Person =
     \<lparr>cls_name = ''Person'',
      cls_columns = [(''name'', \<lparr>db_field = None, column_name = Some ''name'', position = 1, can_delete = True\<rparr>)],
      cls_db_map = [(Some ''name'', ''name'')],
      cls_element_type = None, cls_label = None\<rparr>"

definition empty_registry :: registry where
  "empty_registry = \<lparr>vertex_types = Map.empty, edge_types = Map.empty\<rparr>"

definition plain_columns :: columns_api where
  "plain_columns =
     \<lparr>to_python = (\<lambda>c v. Inr v), validate_column = (\<lambda>c v. Inr v), to_database = (\<lambda>c v. Inr v)\<rparr>"

definition silent_server :: boundary where
  "silent_server = (\<lambda>log c. Inr [])"

definition person_row :: "(string \<times> json) list" where
  "person_row =
     [(''_id'', JInt 7), (''_type'', JStr ''vertex''), (''element_type'', JStr ''person''),
      (''name'', JStr ''Ann'')]"


definition person_registry :: registry where
  "person_registry = empty_registry\<lparr>vertex_types := [''person'' \<mapsto> Person]\<rparr>"

definition one_of_two_server :: boundary where
  "one_of_two_server = (\<lambda>log c. Inr [JObj person_row, JNull])"

definition both_server :: boundary where
  "both_server = (\<lambda>log c. Inr [JObj person_row, JObj person_row])"








definition greet :: gremlin_method where
  "greet = \<lparr>is_classmethod = True, default_args = [(''times'', JInt 1)],
            arg_list = [''name'', ''times''], function_body = ''greeting(name, times)''\<rparr>"

definition ping_file :: string where
  "ping_file = ''def ping() {'' @ [NL] @ ''  g.V'' @ [NL] @ ''}'' @ [NL] @
               ''def greet(name, times) {'' @ [NL] @ ''  name * times'' @ [NL] @ ''}'' @ [NL]"

definition ping_block :: string where
  "ping_block = ''def ping() {'' @ [NL] @ ''  g.V'' @ [NL] @ ''}'' @ [NL]"

definition greet_block :: string where
  "greet_block = ''def greet(name, times) {'' @ [NL] @ ''  name * times'' @ [NL] @ ''}'' @ [NL]"



definition twin_graph :: "json list" where
  "twin_graph =
     [JObj [(''_id'', JInt 1), (''_type'', JStr ''vertex''), (''element_type'', JStr ''person''),
            (''vid'', JStr ''x''), (''name'', JStr ''Ann'')],
      JObj [(''_id'', JInt 2), (''_type'', JStr ''vertex''), (''element_type'', JStr ''person''),
            (''vid'', JStr ''x''), (''name'', JStr ''Bob'')]]"

section \<open>Properties of the schema builder\<close>








section \<open>Properties of the registry\<close>












section \<open>Properties of deletion\<close>

text \<open>
  C5. Deleting a vertex or an edge whose identifier is \<^verbatim>\<open>None\<close> raises
  \<^verbatim>\<open>ThunderdomeQueryError\<close>, and the list of submitted calls is unchanged: no removal
  script reaches the execution boundary.
\<close>

theorem delete_unsaved_raises:
  "eid obj = JNull \<Longrightarrow> delete srv obj log = (Inl ThunderdomeQueryError, log)"
  by (cases obj) simp_all

theorem delete_unsaved_raises_witness:
  "delete silent_server (VertexObj Person JNull [(''name'', JStr ''Ann'')]) [] =
     (Inl ThunderdomeQueryError, [])
   \<and> delete silent_server (EdgeObj Person (Raw (JInt 7)) (Raw (JInt 8)) JNull []) [] =
     (Inl ThunderdomeQueryError, [])"
  using delete_unsaved_raises[of "VertexObj Person JNull [(''name'', JStr ''Ann'')]" silent_server "[]"]
        delete_unsaved_raises[of "EdgeObj Person (Raw (JInt 7)) (Raw (JInt 8)) JNull []" silent_server "[]"]
  by simp

section \<open>Properties of deserialization and fetching\<close>





lemma deserialize_results_Inr:
  "deserialize_results cm r rows = Inr objs \<Longrightarrow> map Inr objs = map (deserialize cm r) rows"
  by (induction rows arbitrary: objs) (auto split: sum.splits)

lemma deserialize_results_all_ok:
  "\<forall>row \<in> set rows. \<exists>obj. deserialize cm r row = Inr obj
     \<Longrightarrow> \<exists>objs. deserialize_results cm r rows = Inr objs"
  by (induction rows) (auto split: sum.splits)


lemma Vertex_all_unfold:
  "srv log (submitted fetch_by_vid_script [(''vids'', JList (map JStr vs))]) = Inr rows
   \<Longrightarrow> Vertex_all cm srv r (Sequence vs) log =
        (if length (filter truthy rows) \<noteq> length vs then Inl ThunderdomeQueryError
         else deserialize_results cm r (filter truthy rows),
         log @ [submitted fetch_by_vid_script [(''vids'', JList (map JStr vs))]])"
  by (simp add: Vertex_all_def execute_query_def Let_def)









text \<open>
  C4. When the execution boundary answers the batched fetch with a number of non-null
  rows different from the number of identifiers requested (in particular with fewer),
  \<^verbatim>\<open>Vertex.all\<close> raises \<^verbatim>\<open>ThunderdomeQueryError\<close>; when the numbers agree and every row
  deserializes, it returns one object per requested identifier, the deserialization of
  the rows in order. In both cases exactly the one fetch script has been submitted.
\<close>

theorem all_checks_result_count:
  "(srv log (submitted fetch_by_vid_script [(''vids'', JList (map JStr vs))]) = Inr rows
      \<and> length (filter truthy rows) \<noteq> length vs
    \<longrightarrow> Vertex_all cm srv r (Sequence vs) log =
          (Inl ThunderdomeQueryError,
           log @ [submitted fetch_by_vid_script [(''vids'', JList (map JStr vs))]]))
   \<and> (srv log (submitted fetch_by_vid_script [(''vids'', JList (map JStr vs))]) = Inr rows
      \<and> length (filter truthy rows) = length vs
      \<and> (\<forall>row \<in> set (filter truthy rows). \<exists>obj. deserialize cm r row = Inr obj)
    \<longrightarrow> (\<exists>objs. Vertex_all cm srv r (Sequence vs) log =
            (Inr objs, log @ [submitted fetch_by_vid_script [(''vids'', JList (map JStr vs))]])
          \<and> length objs = length vs
          \<and> map Inr objs = map (deserialize cm r) (filter truthy rows)))"
proof (intro conjI impI)
  assume "srv log (submitted fetch_by_vid_script [(''vids'', JList (map JStr vs))]) = Inr rows
      \<and> length (filter truthy rows) \<noteq> length vs"
  then show "Vertex_all cm srv r (Sequence vs) log =
          (Inl ThunderdomeQueryError,
           log @ [submitted fetch_by_vid_script [(''vids'', JList (map JStr vs))]])"
    by (simp add: Vertex_all_unfold)
next
  assume a: "srv log (submitted fetch_by_vid_script [(''vids'', JList (map JStr vs))]) = Inr rows
      \<and> length (filter truthy rows) = length vs
      \<and> (\<forall>row \<in> set (filter truthy rows). \<exists>obj. deserialize cm r row = Inr obj)"
  then obtain objs where objs: "deserialize_results cm r (filter truthy rows) = Inr objs"
    using deserialize_results_all_ok[of "filter truthy rows" cm r] by blast
  from deserialize_results_Inr[OF objs]
  have m: "map Inr objs = map (deserialize cm r) (filter truthy rows)" .
  then have "length objs = length (filter truthy rows)"
    by (metis length_map)
  with a objs m show "\<exists>objs. Vertex_all cm srv r (Sequence vs) log =
            (Inr objs, log @ [submitted fetch_by_vid_script [(''vids'', JList (map JStr vs))]])
          \<and> length objs = length vs
          \<and> map Inr objs = map (deserialize cm r) (filter truthy rows)"
    by (simp add: Vertex_all_unfold)
qed

lemma person_row_ok:
  "deserialize plain_columns person_registry (JObj person_row) =
     Inr (VertexObj Person (JInt 7) [(''name'', JStr ''Ann'')])"
  by (simp add: person_registry_def empty_registry_def person_row_def plain_columns_def
      dict_get_def dict_item_def Vertex_init_def Person_def)

lemma truthy_person_row: "truthy (JObj person_row)"
  by (simp add: person_row_def)

theorem all_checks_result_count_witness:
  "Vertex_all plain_columns one_of_two_server person_registry (Sequence [''x'', ''y'']) [] =
     (Inl ThunderdomeQueryError,
      [submitted fetch_by_vid_script [(''vids'', JList [JStr ''x'', JStr ''y''])]])
   \<and> (\<exists>objs. Vertex_all plain_columns both_server person_registry (Sequence [''x'', ''y'']) [] =
        (Inr objs, [submitted fetch_by_vid_script [(''vids'', JList [JStr ''x'', JStr ''y''])]])
      \<and> length objs = 2)"
proof -
  have h1: "one_of_two_server [] (submitted fetch_by_vid_script [(''vids'', JList (map JStr [''x'', ''y'']))])
              = Inr [JObj person_row, JNull]
            \<and> length (filter truthy [JObj person_row, JNull]) \<noteq> length [''x'', ''y'']"
    by (simp add: one_of_two_server_def truthy_person_row del: truthy.simps(6))
  have h2: "both_server [] (submitted fetch_by_vid_script [(''vids'', JList (map JStr [''x'', ''y'']))])
              = Inr [JObj person_row, JObj person_row]
            \<and> length (filter truthy [JObj person_row, JObj person_row]) = length [''x'', ''y'']
            \<and> (\<forall>row \<in> set (filter truthy [JObj person_row, JObj person_row]).
                  \<exists>obj. deserialize plain_columns person_registry row = Inr obj)"
    by (simp add: both_server_def truthy_person_row person_row_ok del: truthy.simps(6) deserialize.simps)
  from h1 all_checks_result_count[of one_of_two_server "[]" "[''x'', ''y'']" "[JObj person_row, JNull]"
          plain_columns person_registry]
  have c1: "Vertex_all plain_columns one_of_two_server person_registry (Sequence [''x'', ''y'']) [] =
     (Inl ThunderdomeQueryError,
      [] @ [submitted fetch_by_vid_script [(''vids'', JList (map JStr [''x'', ''y'']))]])"
    by blast
  from h2 all_checks_result_count[of both_server "[]" "[''x'', ''y'']" "[JObj person_row, JObj person_row]"
          plain_columns person_registry]
  have c2: "\<exists>objs. Vertex_all plain_columns both_server person_registry (Sequence [''x'', ''y'']) [] =
            (Inr objs, [] @ [submitted fetch_by_vid_script [(''vids'', JList (map JStr [''x'', ''y'']))]])
          \<and> length objs = length [''x'', ''y'']
          \<and> map Inr objs = map (deserialize plain_columns person_registry)
               (filter truthy [JObj person_row, JObj person_row])"
    by blast
  from c1 c2 show ?thesis by auto
qed

lemma deserialize_results_length:
  "deserialize_results cm r rows = Inr objs \<Longrightarrow> length objs = length rows"
  by (induction rows arbitrary: objs) (auto split: sum.splits)

text \<open>
  C3. \<^verbatim>\<open>Vertex.get\<close> submits the batched fetch for the one-element sequence of its
  identifier. When the boundary answers with any number of non-null rows other than one
  (none, or two and more), \<^verbatim>\<open>get\<close> raises \<^verbatim>\<open>DoesNotExist\<close>: the count check of \<^verbatim>\<open>all\<close>
  raises first, so a list returned by \<^verbatim>\<open>all\<close> always has length one and the test
  \<^verbatim>\<open>len(results) > 1\<close> of \<^verbatim>\<open>get\<close> never holds.
\<close>

theorem get_wrong_count_is_DoesNotExist:
  "(snd (Vertex_get cm srv r vid log) =
      log @ [submitted fetch_by_vid_script [(''vids'', JList [JStr vid])]])
   \<and> (srv log (submitted fetch_by_vid_script [(''vids'', JList [JStr vid])]) = Inr rows
        \<and> length (filter truthy rows) \<noteq> 1
      \<longrightarrow> Vertex_get cm srv r vid log =
            (Inl DoesNotExist, log @ [submitted fetch_by_vid_script [(''vids'', JList [JStr vid])]]))
   \<and> (\<forall>results log'. Vertex_all cm srv r (Sequence [vid]) log = (Inr results, log')
        \<longrightarrow> length results = 1)"
proof (intro conjI impI allI)
  show "snd (Vertex_get cm srv r vid log) =
      log @ [submitted fetch_by_vid_script [(''vids'', JList [JStr vid])]]"
    by (auto simp: Vertex_get_def Vertex_all_def execute_query_def Let_def
             split: sum.splits list.splits prod.splits)
next
  assume "srv log (submitted fetch_by_vid_script [(''vids'', JList [JStr vid])]) = Inr rows
        \<and> length (filter truthy rows) \<noteq> 1"
  then show "Vertex_get cm srv r vid log =
            (Inl DoesNotExist, log @ [submitted fetch_by_vid_script [(''vids'', JList [JStr vid])]])"
    using Vertex_all_unfold[of srv log "[vid]" rows cm r]
    by (simp add: Vertex_get_def)
next
  fix results log'
  assume "Vertex_all cm srv r (Sequence [vid]) log = (Inr results, log')"
  then show "length results = 1"
    by (auto simp: Vertex_all_def execute_query_def Let_def deserialize_results_length
             split: sum.splits if_splits)
qed

theorem get_wrong_count_is_DoesNotExist_witness:
  "Vertex_get plain_columns both_server person_registry ''x'' [] =
     (Inl DoesNotExist, [submitted fetch_by_vid_script [(''vids'', JList [JStr ''x''])]])"
proof -
  have "both_server [] (submitted fetch_by_vid_script [(''vids'', JList [JStr ''x''])])
          = Inr [JObj person_row, JObj person_row]
        \<and> length (filter truthy [JObj person_row, JObj person_row]) \<noteq> 1"
    by (simp add: both_server_def truthy_person_row del: truthy.simps(6))
  with get_wrong_count_is_DoesNotExist[of plain_columns both_server person_registry "''x''" "[]"
         "[JObj person_row, JObj person_row]"]
  show ?thesis by simp
qed

text \<open>
  With the service answering the fetch script as written, two vertices that share a
  \<^verbatim>\<open>vid\<close> give one row, the first match, and \<^verbatim>\<open>get\<close> returns it.
\<close>

lemma get_returns_first_of_two_matches:
  "fst (Vertex_get plain_columns (graph_server twin_graph) person_registry ''x'' []) =
     Inr (VertexObj Person (JInt 1) [(''name'', JStr ''Ann'')])"
  by (simp add: Vertex_get_def Vertex_all_def execute_query_def submitted_def graph_server_def
       twin_graph_def first_with_vid_def dict_get_def dict_item_def person_registry_def
       empty_registry_def Vertex_init_def Person_def plain_columns_def Let_def)

section \<open>Vertex and edge registries are separate\<close>







section \<open>Properties of saving an edge\<close>






section \<open>Properties of bound embedded-script methods\<close>








lemma add_args_distinct:
  "distinct names \<Longrightarrow> add_args args names = Inr al \<Longrightarrow> distinct al"
proof (induction args arbitrary: names)
  case Nil
  then show ?case by simp
next
  case (Cons a args)
  from Cons.prems have n: "a \<notin> set names" and r: "add_args args (names @ [a]) = Inr al"
    by (auto split: if_splits)
  from Cons.prems(1) n have "distinct (names @ [a])" by simp
  from Cons.IH[OF this r] show ?case .
qed

lemma configure_method_distinct:
  "distinct (arg_list m) \<Longrightarrow> configure_method m method_name data = Inr m' \<Longrightarrow> distinct (arg_list m')"
  by (auto simp: configure_method_def split: sum.splits option.splits groovy_result.splits
           dest: add_args_distinct)




section \<open>Properties of the embedded-script file scan\<close>

lemma ping_file_blocks: "capture (split_lines [] ping_file) [] [] = [ping_block, greet_block]"
  by code_simp

lemma ping_block_fails: "FuncDefn ping_block = None"
  by code_simp

lemma greet_block_parses:
  "GroovyFunctionParser_parse greet_block =
     GroovyFunction ''greet'' [''name'', ''times''] ([NL] @ ''  name * times'' @ [NL, NL]) greet_block"
  by code_simp

lemma ping_block_result: "GroovyFunctionParser_parse ping_block = EmptyDict"
  by (simp add: GroovyFunctionParser_parse_def ping_block_fails)

text \<open>
  C6. What the scan does with a captured block that fails the grammar: the scan itself
  never fails and returns one entry per captured block, but the entry of a failed block is
  the empty dictionary, kept in the result at the block's position; every other entry is
  the parsed signature of its block. The search in \<^verbatim>\<open>configure_method\<close> reads the \<^verbatim>\<open>name\<close>
  of every entry and raises \<^verbatim>\<open>AttributeError\<close> on such a dictionary: the file with
  \<^verbatim>\<open>def ping() {\<close> before \<^verbatim>\<open>def greet(name, times) {\<close> shows it.
\<close>

theorem failed_block_stays_in_result:
  "(block \<in> set (capture (split_lines [] data) [] []) \<and> FuncDefn block = None
     \<longrightarrow> EmptyDict \<in> set (parse_groovy data))
   \<and> length (parse_groovy data) = length (capture (split_lines [] data) [] [])
   \<and> (\<forall>x \<in> set (parse_groovy data).
         x = EmptyDict
         \<or> (\<exists>d fname args. d \<in> set (capture (split_lines [] data) [] [])
               \<and> FuncDefn d = Some (fname, args)
               \<and> x = GroovyFunction fname args (sub_final_brace (sub_to_brace [] d)) d))"
proof (intro conjI impI ballI)
  assume a: "block \<in> set (capture (split_lines [] data) [] []) \<and> FuncDefn block = None"
  then have 1: "GroovyFunctionParser_parse block \<in> set (parse_groovy data)"
    by (simp add: parse_groovy_def)
  from a have "GroovyFunctionParser_parse block = EmptyDict"
    by (simp add: GroovyFunctionParser_parse_def)
  with 1 show "EmptyDict \<in> set (parse_groovy data)" by simp
next
  show "length (parse_groovy data) = length (capture (split_lines [] data) [] [])"
    by (simp add: parse_groovy_def)
next
  fix x assume "x \<in> set (parse_groovy data)"
  then obtain d where d: "d \<in> set (capture (split_lines [] data) [] [])"
    and x: "x = GroovyFunctionParser_parse d"
    by (auto simp: parse_groovy_def)
  show "x = EmptyDict
         \<or> (\<exists>d fname args. d \<in> set (capture (split_lines [] data) [] [])
               \<and> FuncDefn d = Some (fname, args)
               \<and> x = GroovyFunction fname args (sub_final_brace (sub_to_brace [] d)) d)"
  proof (cases "FuncDefn d")
    case None
    with x show ?thesis by (simp add: GroovyFunctionParser_parse_def)
  next
    case (Some p)
    obtain fname args where "p = (fname, args)" by (cases p)
    with Some x d show ?thesis by (auto simp: GroovyFunctionParser_parse_def)
  qed
qed

theorem failed_block_stays_in_result_witness:
  "parse_groovy ping_file =
     [EmptyDict,
      GroovyFunction ''greet'' [''name'', ''times''] ([NL] @ ''  name * times'' @ [NL, NL]) greet_block]
   \<and> EmptyDict \<in> set (parse_groovy ping_file)
   \<and> find_method ''greet'' (parse_groovy ping_file) = Inl AttributeError"
proof -
  have p: "parse_groovy ping_file =
     [EmptyDict,
      GroovyFunction ''greet'' [''name'', ''times''] ([NL] @ ''  name * times'' @ [NL, NL]) greet_block]"
    by (simp add: parse_groovy_def ping_file_blocks greet_block_parses ping_block_result)
  have "ping_block \<in> set (capture (split_lines [] ping_file) [] []) \<and> FuncDefn ping_block = None"
    by (simp add: ping_file_blocks ping_block_fails)
  with failed_block_stays_in_result[of ping_block ping_file]
  have "EmptyDict \<in> set (parse_groovy ping_file)" by blast
  with p show ?thesis by simp
qed

end
